theory Spec2Isabelle
  imports Main
begin

section \<open>Strings\<close>

text \<open>
  A JavaScript string is modelled as a \<^typ>\<open>string\<close> whose characters stand for the code
  units U+0000 to U+00FF. On that range \<open>String.prototype.trim\<close> strips the code units
  9 to 13, 32 and 160, and \<open>toLowerCase\<close> maps A to Z and U+00C0 to U+00DE (U+00D7
  apart) to the code unit 32 above.
\<close>

definition isWhiteSpace :: "char \<Rightarrow> bool" where
  "isWhiteSpace c \<longleftrightarrow> (of_char c :: nat) \<in> {9, 10, 11, 12, 13, 32, 160}"

definition trim :: "string \<Rightarrow> string" where
  "trim s = rev (dropWhile isWhiteSpace (rev (dropWhile isWhiteSpace s)))"

definition lowerChar :: "char \<Rightarrow> char" where
  "lowerChar c =
     (let n = (of_char c :: nat)
      in if (65 \<le> n \<and> n \<le> 90) \<or> (192 \<le> n \<and> n \<le> 222 \<and> n \<noteq> 215)
         then char_of (n + 32) else c)"

definition toLowerCase :: "string \<Rightarrow> string" where
  "toLowerCase s = map lowerChar s"

text \<open>\<open>`${level}`\<close> for a non-negative integer: its decimal digits.\<close>

fun showNat :: "nat \<Rightarrow> string" where
  "showNat n =
     (if n < 10 then [char_of (48 + n)]
      else showNat (n div 10) @ [char_of (48 + n mod 10)])"

declare showNat.simps [simp del]

section \<open>Data model (types.ts)\<close>

datatype TranslationMode = NORMAL | EASY_READ | AAC

record Language =
  code :: string
  name :: string

section \<open>The AI gateway (services/geminiService.ts)\<close>

text \<open>
  What a rejected promise carries: an \<open>Error\<close> object with its message, or any other
  thrown value.
\<close>

datatype exn = Error string | Thrown

text \<open>
  The argument of \<open>ai.models.generateContent\<close>: the model name and the contents, a prompt
  or the two parts of an image request (base64 data and MIME type, then the instruction).
\<close>

datatype contents = Prompt string | Parts string string string

type_synonym endpoint = "string \<times> contents \<Rightarrow> exn + string"

definition geminiFlash :: string where
  "geminiFlash = ''gemini-2.5-flash''"

definition generateContent :: "endpoint \<Rightarrow> string \<Rightarrow> exn + string" where
  "generateContent ai prompt =
     (case ai (geminiFlash, Prompt prompt) of
        Inr text \<Rightarrow> Inr text
      | Inl e \<Rightarrow> Inl (Error ''Failed to get response from AI model.''))"

definition detectLanguage_prompt :: "string \<Rightarrow> string" where
  \<open>detectLanguage_prompt text =
     ''Detect the language of the following text. Respond with ONLY the English name of the language (e.g., "English", "French", "Japanese"). Text: "''
     @ text @ ''"''\<close>

text \<open>
  The body of the \<open>try\<close> block of \<open>detectLanguage\<close>, from the endpoint's response on: the
  first catalog entry whose lowercased name is the trimmed, lowercased response, or the
  \<open>Error\<close> thrown inside the block.
\<close>

definition detectLanguage_try :: "Language list \<Rightarrow> exn + string \<Rightarrow> exn + string" where
  \<open>detectLanguage_try LANGUAGES response =
     (case response of
        Inl e \<Rightarrow> Inl e
      | Inr langName \<Rightarrow>
          (case find (\<lambda>lang. toLowerCase (name lang) = toLowerCase (trim langName)) LANGUAGES of
             Some foundLang \<Rightarrow> Inr (code foundLang)
           | None \<Rightarrow> Inl (Error (''Detected language "'' @ langName @ ''" is not supported.''))))\<close>

text \<open>The \<open>catch\<close> block replaces whatever the \<open>try\<close> block threw.\<close>

definition detectLanguage_settle :: "Language list \<Rightarrow> exn + string \<Rightarrow> exn + string" where
  "detectLanguage_settle LANGUAGES response =
     (case detectLanguage_try LANGUAGES response of
        Inr c \<Rightarrow> Inr c
      | Inl e \<Rightarrow> Inl (Error ''Failed to detect language.''))"

definition detectLanguage :: "Language list \<Rightarrow> endpoint \<Rightarrow> string \<Rightarrow> exn + string" where
  "detectLanguage LANGUAGES ai text =
     detectLanguage_settle LANGUAGES (ai (geminiFlash, Prompt (detectLanguage_prompt text)))"

definition extractTextFromImage :: "endpoint \<Rightarrow> string \<Rightarrow> string \<Rightarrow> exn + string" where
  "extractTextFromImage ai base64Image mimeType =
     (case ai (geminiFlash,
               Parts base64Image mimeType
                 ''Extract all text from this image. If no text is found, return an empty string.'') of
        Inr text \<Rightarrow> Inr text
      | Inl e \<Rightarrow> Inl (Error ''Failed to extract text from image.''))"

definition translateText :: "endpoint \<Rightarrow> string \<Rightarrow> string \<Rightarrow> string \<Rightarrow> exn + string" where
  \<open>translateText ai text sourceLang targetLang =
     generateContent ai
       (''Translate the following text from '' @ sourceLang @ '' to '' @ targetLang
        @ ''. Provide only the translated text, without any introductory phrases. Text: "''
        @ text @ ''"'')\<close>

definition simplifyText :: "endpoint \<Rightarrow> string \<Rightarrow> string \<Rightarrow> nat \<Rightarrow> exn + string" where
  \<open>simplifyText ai text lang level =
     generateContent ai
       (''Rewrite the following text in '' @ lang
        @ '' to be very simple and easy to understand, at a simplicity level of ''
        @ showNat level
        @ '' out of 15 (where 15 is the simplest). Provide only the simplified text. Text: "''
        @ text @ ''"'')\<close>

definition generateAAC :: "endpoint \<Rightarrow> string \<Rightarrow> string \<Rightarrow> exn + string" where
  \<open>generateAAC ai text lang =
     generateContent ai
       (''You are an expert in Augmentative and Alternative Communication (AAC) systems. Your task is to convert the following text in ''
        @ lang
        @ '' into a sequence of core vocabulary words suitable for an AAC device.''
        @ [CHR 0x0A, CHR 0x0A]
        @ ''Follow these critical AAC standards:'' @ [CHR 0x0A]
        @ ''1.  **Simplify Grammar:** Reduce the sentence to its essential meaning. Remove articles (a, an, the), verb conjugations, plurals, and filler words.''
        @ [CHR 0x0A]
        @ ''2.  **Focus on Core Words:** Prioritize high-frequency, reusable words (e.g., "I", "want", "go", "more", "help", "drink", "eat").''
        @ [CHR 0x0A]
        @ ''3.  **Extract Intent:** Identify the primary intent of the message, not just the literal words.''
        @ [CHR 0x0A]
        @ ''4.  **Output Format:** Separate each word with a hyphen surrounded by spaces ( - ). Provide ONLY the keyword sequence.''
        @ [CHR 0x0A, CHR 0x0A]
        @ ''For example, for the input "I would really like to have a big glass of cold water because I'm very thirsty", the correct output is: "I - want - drink - water".''
        @ [CHR 0x0A, CHR 0x0A]
        @ ''Now, process the following text: "'' @ text @ ''"'')\<close>

text \<open>
  A call of one of the module's exported operations, and the module as the function that
  answers such a call.
\<close>

datatype gateway_call =
    TranslateText string string string
  | SimplifyText string string nat
  | GenerateAAC string string
  | DetectLanguage string
  | ExtractTextFromImage string string

type_synonym gateway = "gateway_call \<Rightarrow> exn + string"

fun geminiService :: "Language list \<Rightarrow> endpoint \<Rightarrow> gateway" where
  "geminiService LANGUAGES ai (TranslateText text sourceLang targetLang) =
     translateText ai text sourceLang targetLang"
| "geminiService LANGUAGES ai (SimplifyText text lang level) = simplifyText ai text lang level"
| "geminiService LANGUAGES ai (GenerateAAC text lang) = generateAAC ai text lang"
| "geminiService LANGUAGES ai (DetectLanguage text) = detectLanguage LANGUAGES ai text"
| "geminiService LANGUAGES ai (ExtractTextFromImage base64Image mimeType) =
     extractTextFromImage ai base64Image mimeType"

section \<open>The session (App)\<close>

definition DETECT_LANGUAGE_CODE :: string where
  "DETECT_LANGUAGE_CODE = ''auto''"

text \<open>
  The values of one render that the debounce callback of the detection effect closes
  over: it reads \<open>inputText\<close>, \<open>sourceLang\<close> and \<open>targetLang\<close> of the render that
  created it, not the state at the time it runs.
\<close>

record captured =
  cap_inputText :: string
  cap_sourceLang :: string
  cap_targetLang :: string

text \<open>
  The component state: the \<open>useState\<close> cells, the pending timer of
  \<open>debounceTimeoutRef\<close> with its callback's captured values, and the asynchronous work
  awaiting completion (detection calls with their callback's captured values, and the
  numbers of generation calls, file reads and extraction calls).
\<close>

record app =
  mode :: TranslationMode
  inputText :: string
  outputText :: string
  sourceLang :: string
  targetLang :: string
  easyReadLevel :: nat
  isLoading :: bool
  isDetectingLang :: bool
  error :: "string option"
  imagePreview :: "string option"
  debounceTimeout :: "captured option"
  detections :: "captured list"
  generations :: nat
  reads :: nat
  extractions :: nat

definition initial :: app where
  "initial =
     \<lparr>mode = NORMAL, inputText = [], outputText = [],
      sourceLang = DETECT_LANGUAGE_CODE, targetLang = ''it'', easyReadLevel = 8,
      isLoading = False, isDetectingLang = False, error = None, imagePreview = None,
      debounceTimeout = None, detections = [], generations = 0, reads = 0,
      extractions = 0\<rparr>"

definition sourceLanguages :: "Language list \<Rightarrow> Language list" where
  "sourceLanguages LANGUAGES =
     \<lparr>code = DETECT_LANGUAGE_CODE, name = ''Detect Language''\<rparr> # LANGUAGES"

definition targetLanguages :: "Language list \<Rightarrow> string \<Rightarrow> Language list" where
  "targetLanguages LANGUAGES sl = filter (\<lambda>lang. code lang \<noteq> sl) LANGUAGES"

subsection \<open>The detection effect and the reset effect\<close>

text \<open>
  The body of the detection effect on the values of a render: the pending timer is
  cleared, and a new one is started when the source is \<open>auto\<close> and the trimmed input is
  longer than 10.
\<close>

definition effect_detect :: "app \<Rightarrow> app" where
  "effect_detect s =
     (if sourceLang s = DETECT_LANGUAGE_CODE \<and> length (trim (inputText s)) > 10
      then s\<lparr>isDetectingLang := True,
             debounceTimeout :=
               Some \<lparr>cap_inputText = inputText s, cap_sourceLang = sourceLang s,
                     cap_targetLang = targetLang s\<rparr>\<rparr>
      else s\<lparr>isDetectingLang := False, debounceTimeout := None\<rparr>)"

definition effect_reset :: "app \<Rightarrow> app" where
  "effect_reset s =
     (if trim (inputText s) = [] \<and> sourceLang s \<noteq> DETECT_LANGUAGE_CODE
      then s\<lparr>sourceLang := DETECT_LANGUAGE_CODE\<rparr> else s)"

text \<open>
  One commit: each effect runs when one of its dependencies differs from the previous
  render's. The reset effect may set \<open>sourceLang\<close>, which makes one more render with
  changed dependencies; after it \<open>sourceLang\<close> is \<open>auto\<close> and nothing changes again.
\<close>

definition commit :: "app \<Rightarrow> app \<Rightarrow> app" where
  "commit prev s =
     (let s1 = (if (inputText prev, sourceLang prev, targetLang prev)
                   \<noteq> (inputText s, sourceLang s, targetLang s)
                then effect_detect s else s)
      in if (inputText prev, sourceLang prev) \<noteq> (inputText s, sourceLang s)
         then effect_reset s1 else s1)"

definition render_effects :: "app \<Rightarrow> app \<Rightarrow> app" where
  "render_effects prev s = (let s1 = commit prev s in commit s s1)"

text \<open>The timer callback after its \<open>await\<close>, on the outcome of \<open>detectLanguage\<close>.\<close>

definition newTarget :: "Language list \<Rightarrow> string \<Rightarrow> Language option" where
  "newTarget LANGUAGES detectedLangCode =
     (case find (\<lambda>l. code l \<noteq> detectedLangCode \<and> code l = ''en'') LANGUAGES of
        Some l \<Rightarrow> Some l
      | None \<Rightarrow> find (\<lambda>l. code l \<noteq> detectedLangCode) LANGUAGES)"

definition detection_settle :: "Language list \<Rightarrow> captured \<Rightarrow> exn + string \<Rightarrow> app \<Rightarrow> app" where
  "detection_settle LANGUAGES cap outcome s =
     (case outcome of
        Inr detectedLangCode \<Rightarrow>
          (if cap_sourceLang cap = DETECT_LANGUAGE_CODE
           then (let s1 = s\<lparr>sourceLang := detectedLangCode\<rparr>
                 in if cap_targetLang cap = detectedLangCode
                    then (case newTarget LANGUAGES detectedLangCode of
                            Some l \<Rightarrow> s1\<lparr>targetLang := code l\<rparr>
                          | None \<Rightarrow> s1)
                    else s1)
           else s)
      | Inl e \<Rightarrow>
          (if cap_sourceLang cap = DETECT_LANGUAGE_CODE
           then s\<lparr>sourceLang := ''en''\<rparr> else s))
     \<lparr>isDetectingLang := False\<rparr>"

subsection \<open>handleSwapLanguages and handleGenerate\<close>

definition handleSwapLanguages :: "app \<Rightarrow> app" where
  "handleSwapLanguages s =
     (if mode s = NORMAL \<and> sourceLang s \<noteq> DETECT_LANGUAGE_CODE
      then s\<lparr>sourceLang := targetLang s, targetLang := sourceLang s\<rparr>
      else s)"

text \<open>\<open>LANGUAGES.find(l => l.code === c)?.name || c\<close>: an empty name is falsy.\<close>

definition langName :: "Language list \<Rightarrow> string \<Rightarrow> string" where
  "langName LANGUAGES c =
     (case find (\<lambda>l. code l = c) LANGUAGES of
        Some l \<Rightarrow> if name l = [] then c else name l
      | None \<Rightarrow> c)"

definition message :: "exn \<Rightarrow> string \<Rightarrow> string" where
  "message e fallback = (case e of Error m \<Rightarrow> m | Thrown \<Rightarrow> fallback)"

definition generate_call :: "Language list \<Rightarrow> app \<Rightarrow> gateway_call" where
  "generate_call LANGUAGES s =
     (let sourceLangName = langName LANGUAGES (sourceLang s);
          targetLangName = langName LANGUAGES (targetLang s)
      in case mode s of
           NORMAL \<Rightarrow> TranslateText (inputText s) sourceLangName targetLangName
         | EASY_READ \<Rightarrow> SimplifyText (inputText s) sourceLangName (easyReadLevel s)
         | AAC \<Rightarrow> GenerateAAC (inputText s) sourceLangName)"

definition handleGenerate_enter :: "app \<Rightarrow> app" where
  "handleGenerate_enter s = s\<lparr>isLoading := True, error := None, outputText := []\<rparr>"

definition handleGenerate_settle :: "exn + string \<Rightarrow> app \<Rightarrow> app" where
  "handleGenerate_settle outcome s =
     (case outcome of
        Inr result \<Rightarrow> s\<lparr>outputText := result\<rparr>
      | Inl e \<Rightarrow> s\<lparr>error := Some (message e ''An unknown error occurred.'')\<rparr>)
     \<lparr>isLoading := False\<rparr>"

text \<open>
  \<open>handleGenerate\<close> run to completion against a gateway, with nothing else happening
  during its \<open>await\<close>: the calls it made and the state it leaves.
\<close>

definition handleGenerate :: "Language list \<Rightarrow> gateway \<Rightarrow> app \<Rightarrow> gateway_call list \<times> app" where
  "handleGenerate LANGUAGES svc s =
     (if trim (inputText s) = [] \<or> sourceLang s = DETECT_LANGUAGE_CODE then ([], s)
      else (let call = generate_call LANGUAGES s
            in ([call], handleGenerate_settle (svc call) (handleGenerate_enter s))))"

subsection \<open>Events\<close>

text \<open>
  What can happen to the component: the user's actions on the controls, the debounce
  timer firing, and the completions of asynchronous work. A detection completion names
  the pending call by its position and carries the endpoint's response.
\<close>

datatype event =
    SetMode TranslationMode
  | SetInputText string
  | SetSourceLang string
  | SetTargetLang string
  | SetEasyReadLevel nat
  | SwapLanguages
  | Generate
  | GenerateSettled "exn + string"
  | TimerFired
  | DetectionSettled nat "exn + string"
  | UploadImage
  | FileLoaded string
  | FileError
  | ExtractionSettled "exn + string"

text \<open>The state updates of an event's handler, before the effects of the next render.\<close>

fun update :: "Language list \<Rightarrow> app \<Rightarrow> event \<Rightarrow> app" where
  "update LANGUAGES s (SetMode m) = s\<lparr>mode := m\<rparr>"
| "update LANGUAGES s (SetInputText t) = s\<lparr>inputText := t\<rparr>"
| "update LANGUAGES s (SetSourceLang c) = s\<lparr>sourceLang := c\<rparr>"
| "update LANGUAGES s (SetTargetLang c) = s\<lparr>targetLang := c\<rparr>"
| "update LANGUAGES s (SetEasyReadLevel n) = s\<lparr>easyReadLevel := n\<rparr>"
| "update LANGUAGES s SwapLanguages = handleSwapLanguages s"
| "update LANGUAGES s Generate =
     (if trim (inputText s) = [] \<or> sourceLang s = DETECT_LANGUAGE_CODE then s
      else (handleGenerate_enter s)\<lparr>generations := generations s + 1\<rparr>)"
| "update LANGUAGES s (GenerateSettled outcome) =
     (handleGenerate_settle outcome s)\<lparr>generations := generations s - 1\<rparr>"
| "update LANGUAGES s TimerFired =
     (case debounceTimeout s of
        Some cap \<Rightarrow> s\<lparr>debounceTimeout := None, detections := detections s @ [cap]\<rparr>
      | None \<Rightarrow> s)"
| "update LANGUAGES s (DetectionSettled k response) =
     (detection_settle LANGUAGES (detections s ! k)
        (detectLanguage_settle LANGUAGES response) s)
     \<lparr>detections := take k (detections s) @ drop (Suc k) (detections s)\<rparr>"
| "update LANGUAGES s UploadImage = s\<lparr>isLoading := True, error := None, reads := reads s + 1\<rparr>"
| "update LANGUAGES s (FileLoaded dataUrl) =
     s\<lparr>imagePreview := Some dataUrl, reads := reads s - 1, extractions := extractions s + 1\<rparr>"
| "update LANGUAGES s FileError =
     s\<lparr>error := Some ''Failed to read the image file.'', isLoading := False,
       reads := reads s - 1\<rparr>"
| "update LANGUAGES s (ExtractionSettled outcome) =
     (case outcome of
        Inr text \<Rightarrow> s\<lparr>inputText := text\<rparr>
      | Inl e \<Rightarrow>
          s\<lparr>error := Some (message e ''An unknown error occurred during image processing.'')\<rparr>)
     \<lparr>isLoading := False, extractions := extractions s - 1\<rparr>"

text \<open>
  When the rendered controls offer an event: the source selector is disabled while
  \<open>isDetectingLang\<close> and lists \<open>sourceLanguages\<close>; the target selector and the swap
  button exist in Normal mode only, the selector listing \<open>targetLanguages\<close> and the
  button disabled while the source is \<open>auto\<close>; the level slider exists in Easy-to-Read
  mode; the input takes at most 20000 characters; the generate button is disabled while
  loading, on blank input and on source \<open>auto\<close>. A completion needs pending work.
\<close>

fun enabled :: "Language list \<Rightarrow> app \<Rightarrow> event \<Rightarrow> bool" where
  "enabled LANGUAGES s (SetMode m) = True"
| "enabled LANGUAGES s (SetInputText t) = (length t \<le> 20000)"
| "enabled LANGUAGES s (SetSourceLang c) =
     (\<not> isDetectingLang s \<and> c \<in> set (map code (sourceLanguages LANGUAGES)))"
| "enabled LANGUAGES s (SetTargetLang c) =
     (mode s = NORMAL \<and> c \<in> set (map code (targetLanguages LANGUAGES (sourceLang s))))"
| "enabled LANGUAGES s (SetEasyReadLevel n) = (mode s = EASY_READ \<and> 1 \<le> n \<and> n \<le> 15)"
| "enabled LANGUAGES s SwapLanguages =
     (mode s = NORMAL \<and> sourceLang s \<noteq> DETECT_LANGUAGE_CODE)"
| "enabled LANGUAGES s Generate =
     (\<not> isLoading s \<and> trim (inputText s) \<noteq> [] \<and> sourceLang s \<noteq> DETECT_LANGUAGE_CODE)"
| "enabled LANGUAGES s (GenerateSettled outcome) = (0 < generations s)"
| "enabled LANGUAGES s TimerFired = (debounceTimeout s \<noteq> None)"
| "enabled LANGUAGES s (DetectionSettled k response) = (k < length (detections s))"
| "enabled LANGUAGES s UploadImage = True"
| "enabled LANGUAGES s (FileLoaded dataUrl) = (0 < reads s)"
| "enabled LANGUAGES s FileError = (0 < reads s)"
| "enabled LANGUAGES s (ExtractionSettled outcome) = (0 < extractions s)"

definition step :: "Language list \<Rightarrow> app \<Rightarrow> event \<Rightarrow> app" where
  "step LANGUAGES s e = render_effects s (update LANGUAGES s e)"

text \<open>A run of events from a state; \<open>None\<close> when some event is not on offer.\<close>

fun run :: "Language list \<Rightarrow> app \<Rightarrow> event list \<Rightarrow> app option" where
  "run LANGUAGES s [] = Some s"
| "run LANGUAGES s (e # es) =
     (if enabled LANGUAGES s e then run LANGUAGES (step LANGUAGES s e) es else None)"

subsection \<open>A catalog for concrete runs\<close>

text \<open>
  Modelled from the spec: the catalog \<open>LANGUAGES\<close> of the constants module is not among
  the sources. Every definition above takes the catalog as a parameter; the concrete
  runs below use this one, which has the languages the spec and the code name: English
  \<open>en\<close> (the fallback), Italian \<open>it\<close> (the initial target) and French \<open>fr\<close>.
\<close>

definition LANGUAGES_sample :: "Language list" where
  "LANGUAGES_sample =
     [\<lparr>code = ''en'', name = ''English''\<rparr>,
      \<lparr>code = ''it'', name = ''Italian''\<rparr>,
      \<lparr>code = ''fr'', name = ''French''\<rparr>]"

subsection \<open>Endpoints and a session for concrete runs\<close>

text \<open>An endpoint that answers every request with one text, and one that always fails.\<close>

definition endpoint_answering :: "string \<Rightarrow> endpoint" where
  "endpoint_answering t request = Inr t"

definition endpoint_failing :: "exn \<Rightarrow> endpoint" where
  "endpoint_failing e request = Inl e"

definition session_sample :: app where
  "session_sample = initial\<lparr>inputText := ''Good morning'', sourceLang := ''en''\<rparr>"

subsection \<open>Invariants of the runs\<close>

text \<open>
  Three facts about every state a run from the initial state reaches: a blank input goes
  with source \<open>auto\<close> (the reset effect); every pending callback captured source
  \<open>auto\<close> (the timer is only started under that test); the target is never \<open>auto\<close>
  (for a catalog that does not list it).
\<close>

definition blank_means_auto :: "app \<Rightarrow> bool" where
  "blank_means_auto s \<longleftrightarrow> (trim (inputText s) = [] \<longrightarrow> sourceLang s = DETECT_LANGUAGE_CODE)"

definition captured_auto :: "app \<Rightarrow> bool" where
  "captured_auto s \<longleftrightarrow>
     (\<forall>cap \<in> set (detections s). cap_sourceLang cap = DETECT_LANGUAGE_CODE)
   \<and> (\<forall>cap. debounceTimeout s = Some cap \<longrightarrow> cap_sourceLang cap = DETECT_LANGUAGE_CODE)"

definition target_concrete :: "app \<Rightarrow> bool" where
  "target_concrete s \<longleftrightarrow> targetLang s \<noteq> DETECT_LANGUAGE_CODE"

text \<open>The state after a long input and the firing of the timer: one detection pending.\<close>

definition detecting_sample :: app where
  "detecting_sample =
     initial\<lparr>inputText := ''Bonjour, comment allez-vous?'', isDetectingLang := True,
       detections := [\<lparr>cap_inputText = ''Bonjour, comment allez-vous?'',
                       cap_sourceLang = DETECT_LANGUAGE_CODE, cap_targetLang = ''it''\<rparr>]\<rparr>"

section \<open>Properties\<close>

subsection \<open>Renders without a change\<close>

lemma commit_same: "commit s s = s"
  by (simp add: commit_def)

lemma render_effects_same: "render_effects s s = s"
  by (simp add: render_effects_def commit_same)

subsection \<open>detectLanguage\<close>

text \<open>
  C3, as the code has it. When the endpoint answers with a name and some catalog entry's
  lowercased name equals the trimmed, lowercased answer, \<open>detectLanguage\<close> returns the
  code of the first such entry, unmodified. When no entry matches, and likewise when the
  endpoint fails, it fails with the one \<open>Error\<close> "Failed to detect language.": the error
  thrown for an unmatched name is replaced by the \<open>catch\<close> block of the same function,
  so the two failures are the same value.
\<close>

theorem detectLanguage_result:
  "(\<forall>langName. ai (geminiFlash, Prompt (detectLanguage_prompt t)) = Inr langName
            \<and> (\<exists>lang \<in> set LANGUAGES. toLowerCase (name lang) = toLowerCase (trim langName))
          \<longrightarrow> (\<exists>i < length LANGUAGES.
                 toLowerCase (name (LANGUAGES ! i)) = toLowerCase (trim langName)
               \<and> (\<forall>j < i. toLowerCase (name (LANGUAGES ! j)) \<noteq> toLowerCase (trim langName))
               \<and> detectLanguage LANGUAGES ai t = Inr (code (LANGUAGES ! i))))
       \<and> (\<forall>langName. ai (geminiFlash, Prompt (detectLanguage_prompt t)) = Inr langName
            \<and> (\<forall>lang \<in> set LANGUAGES. toLowerCase (name lang) \<noteq> toLowerCase (trim langName))
          \<longrightarrow> detectLanguage LANGUAGES ai t = Inl (Error ''Failed to detect language.''))
       \<and> (\<forall>e. ai (geminiFlash, Prompt (detectLanguage_prompt t)) = Inl e
          \<longrightarrow> detectLanguage LANGUAGES ai t = Inl (Error ''Failed to detect language.''))"
proof (intro conjI allI impI)
  fix langName
  assume a: "ai (geminiFlash, Prompt (detectLanguage_prompt t)) = Inr langName
    \<and> (\<exists>lang \<in> set LANGUAGES. toLowerCase (name lang) = toLowerCase (trim langName))"
  then obtain l where
    f: "find (\<lambda>lang. toLowerCase (name lang) = toLowerCase (trim langName)) LANGUAGES = Some l"
    by (cases "find (\<lambda>lang. toLowerCase (name lang) = toLowerCase (trim langName)) LANGUAGES")
       (auto simp add: find_None_iff)
  then obtain i where i: "i < length LANGUAGES"
    "toLowerCase (name (LANGUAGES ! i)) = toLowerCase (trim langName)"
    "l = LANGUAGES ! i"
    "\<forall>j < i. toLowerCase (name (LANGUAGES ! j)) \<noteq> toLowerCase (trim langName)"
    by (auto simp add: find_Some_iff)
  from a f have "detectLanguage LANGUAGES ai t = Inr (code l)"
    by (simp add: detectLanguage_def detectLanguage_settle_def detectLanguage_try_def)
  with i show "\<exists>i < length LANGUAGES.
                 toLowerCase (name (LANGUAGES ! i)) = toLowerCase (trim langName)
               \<and> (\<forall>j < i. toLowerCase (name (LANGUAGES ! j)) \<noteq> toLowerCase (trim langName))
               \<and> detectLanguage LANGUAGES ai t = Inr (code (LANGUAGES ! i))"
    by blast
next
  fix langName
  assume a: "ai (geminiFlash, Prompt (detectLanguage_prompt t)) = Inr langName
    \<and> (\<forall>lang \<in> set LANGUAGES. toLowerCase (name lang) \<noteq> toLowerCase (trim langName))"
  then have "find (\<lambda>lang. toLowerCase (name lang) = toLowerCase (trim langName)) LANGUAGES = None"
    by (simp add: find_None_iff)
  with a show "detectLanguage LANGUAGES ai t = Inl (Error ''Failed to detect language.'')"
    by (simp add: detectLanguage_def detectLanguage_settle_def detectLanguage_try_def)
next
  fix e
  assume "ai (geminiFlash, Prompt (detectLanguage_prompt t)) = Inl e"
  then show "detectLanguage LANGUAGES ai t = Inl (Error ''Failed to detect language.'')"
    by (simp add: detectLanguage_def detectLanguage_settle_def detectLanguage_try_def)
qed

theorem detectLanguage_result_witness:
  "((endpoint_answering '' FRENCH '') (geminiFlash, Prompt (detectLanguage_prompt ''Bonjour'')) = Inr '' FRENCH ''
     \<and> (\<exists>lang \<in> set LANGUAGES_sample. toLowerCase (name lang) = toLowerCase (trim '' FRENCH '')))
   \<and> (\<exists>i < length LANGUAGES_sample.
          toLowerCase (name (LANGUAGES_sample ! i)) = toLowerCase (trim '' FRENCH '')
        \<and> (\<forall>j < i. toLowerCase (name (LANGUAGES_sample ! j)) \<noteq> toLowerCase (trim '' FRENCH ''))
        \<and> detectLanguage LANGUAGES_sample (endpoint_answering '' FRENCH '') ''Bonjour''
            = Inr (code (LANGUAGES_sample ! i)))
   \<and> ((endpoint_answering ''Klingon'') (geminiFlash, Prompt (detectLanguage_prompt ''nuqneH'')) = Inr ''Klingon''
     \<and> \<not> (\<exists>lang \<in> set LANGUAGES_sample. toLowerCase (name lang) = toLowerCase (trim ''Klingon'')))
   \<and> detectLanguage LANGUAGES_sample (endpoint_answering ''Klingon'') ''nuqneH''
        = Inl (Error ''Failed to detect language.'')
   \<and> (endpoint_failing Thrown) (geminiFlash, Prompt (detectLanguage_prompt ''Bonjour'')) = Inl Thrown
   \<and> detectLanguage LANGUAGES_sample (endpoint_failing Thrown) ''Bonjour''
        = Inl (Error ''Failed to detect language.'')"
proof -
  have a: "(endpoint_answering '' FRENCH '') (geminiFlash, Prompt (detectLanguage_prompt ''Bonjour'')) = Inr '' FRENCH ''
     \<and> (\<exists>lang \<in> set LANGUAGES_sample. toLowerCase (name lang) = toLowerCase (trim '' FRENCH ''))"
    by code_simp
  have b: "(endpoint_answering ''Klingon'') (geminiFlash, Prompt (detectLanguage_prompt ''nuqneH'')) = Inr ''Klingon''
     \<and> \<not> (\<exists>lang \<in> set LANGUAGES_sample. toLowerCase (name lang) = toLowerCase (trim ''Klingon''))"
    by code_simp
  have c: "(endpoint_failing Thrown) (geminiFlash, Prompt (detectLanguage_prompt ''Bonjour'')) = Inl Thrown"
    by (simp add: endpoint_failing_def)
  note r1 = detectLanguage_result [of "endpoint_answering '' FRENCH ''" "''Bonjour''" LANGUAGES_sample]
  note r2 = detectLanguage_result [of "endpoint_answering ''Klingon''" "''nuqneH''" LANGUAGES_sample]
  note r3 = detectLanguage_result [of "endpoint_failing Thrown" "''Bonjour''" LANGUAGES_sample]
  from r1 a have a': "\<exists>i < length LANGUAGES_sample.
          toLowerCase (name (LANGUAGES_sample ! i)) = toLowerCase (trim '' FRENCH '')
        \<and> (\<forall>j < i. toLowerCase (name (LANGUAGES_sample ! j)) \<noteq> toLowerCase (trim '' FRENCH ''))
        \<and> detectLanguage LANGUAGES_sample (endpoint_answering '' FRENCH '') ''Bonjour''
            = Inr (code (LANGUAGES_sample ! i))"
    by blast
  from r2 b have b': "detectLanguage LANGUAGES_sample (endpoint_answering ''Klingon'') ''nuqneH''
        = Inl (Error ''Failed to detect language.'')"
    by blast
  from r3 c have c': "detectLanguage LANGUAGES_sample (endpoint_failing Thrown) ''Bonjour''
        = Inl (Error ''Failed to detect language.'')"
    by blast
  from a a' b b' c c' show ?thesis by blast
qed

text \<open>
  C3 as stated fails: on the sample catalog, an answer naming an unlisted language and a
  failing endpoint give the same result, so a caller cannot tell them apart.
\<close>

theorem detectLanguage_unmatched_same_failure:
  "detectLanguage LANGUAGES_sample (endpoint_answering ''Klingon'') ''nuqneH''
     = detectLanguage LANGUAGES_sample (endpoint_failing (Error ''fetch failed'')) ''nuqneH''"
  by code_simp

subsection \<open>handleGenerate\<close>



text \<open>
  C6. When the input trims to empty or the source is \<open>auto\<close>, \<open>handleGenerate\<close>
  makes no gateway call and returns the state as it was, every field included; as an
  event it changes nothing either.
\<close>

theorem generate_guard_noop:
  assumes "trim (inputText s) = [] \<or> sourceLang s = DETECT_LANGUAGE_CODE"
  shows "handleGenerate LANGUAGES svc s = ([], s) \<and> step LANGUAGES s Generate = s"
  using assms by (auto simp add: handleGenerate_def step_def render_effects_same)

theorem generate_guard_noop_witness:
  "(trim (inputText initial) = [] \<or> sourceLang initial = DETECT_LANGUAGE_CODE)
   \<and> handleGenerate LANGUAGES_sample (geminiService LANGUAGES_sample (endpoint_answering ''Ciao'')) initial = ([], initial)
   \<and> step LANGUAGES_sample initial Generate = initial"
proof -
  have h: "trim (inputText initial) = [] \<or> sourceLang initial = DETECT_LANGUAGE_CODE"
    by (simp add: initial_def)
  show ?thesis
    using h generate_guard_noop [OF h] by simp
qed

subsection \<open>targetLanguages\<close>

lemma filter_code_remove1:
  "distinct (map code L) \<Longrightarrow>
   filter (\<lambda>lang. code lang \<noteq> sl) L =
     (case find (\<lambda>lang. code lang = sl) L of None \<Rightarrow> L | Some e \<Rightarrow> remove1 e L)"
proof (induction L)
  case Nil
  then show ?case by simp
next
  case (Cons a L)
  show ?case
  proof (cases "code a = sl")
    case True
    from Cons.prems have "code a \<notin> code ` set L" by simp
    with True have "\<forall>l \<in> set L. code l \<noteq> sl" by blast
    then have "filter (\<lambda>lang. code lang \<noteq> sl) L = L" by (simp add: filter_id_conv)
    with True show ?thesis by simp
  next
    case False
    from Cons.prems have d: "distinct (map code L)" by simp
    show ?thesis
    proof (cases "find (\<lambda>lang. code lang = sl) L")
      case None
      with False Cons.IH [OF d] show ?thesis by simp
    next
      case (Some e)
      then have "code e = sl" by (auto simp add: find_Some_iff)
      with False have "e \<noteq> a" by auto
      with False Some Cons.IH [OF d] show ?thesis by simp
    qed
  qed
qed

text \<open>
  C8. For a catalog with distinct codes that does not list \<open>auto\<close>, and any source
  language, \<open>auto\<close> included: the target list is the catalog without the entry whose
  code is the source language (the whole catalog when there is none), it has no entry
  with the source's code, and \<open>auto\<close> is not in it.
\<close>

theorem targetLanguages_catalog_minus_source:
  assumes "distinct (map code LANGUAGES)"
    and "DETECT_LANGUAGE_CODE \<notin> set (map code LANGUAGES)"
  shows "targetLanguages LANGUAGES sl =
           (case find (\<lambda>lang. code lang = sl) LANGUAGES of
              None \<Rightarrow> LANGUAGES | Some e \<Rightarrow> remove1 e LANGUAGES)
       \<and> sl \<notin> set (map code (targetLanguages LANGUAGES sl))
       \<and> DETECT_LANGUAGE_CODE \<notin> set (map code (targetLanguages LANGUAGES sl))"
proof -
  have "targetLanguages LANGUAGES sl =
          (case find (\<lambda>lang. code lang = sl) LANGUAGES of
             None \<Rightarrow> LANGUAGES | Some e \<Rightarrow> remove1 e LANGUAGES)"
    using assms(1) by (simp add: targetLanguages_def filter_code_remove1)
  moreover have "sl \<notin> set (map code (targetLanguages LANGUAGES sl))"
    by (auto simp add: targetLanguages_def)
  moreover have "DETECT_LANGUAGE_CODE \<notin> set (map code (targetLanguages LANGUAGES sl))"
    using assms(2) by (auto simp add: targetLanguages_def)
  ultimately show ?thesis by simp
qed

theorem targetLanguages_catalog_minus_source_witness:
  "distinct (map code LANGUAGES_sample)
   \<and> DETECT_LANGUAGE_CODE \<notin> set (map code LANGUAGES_sample)
   \<and> targetLanguages LANGUAGES_sample ''it''
       = [\<lparr>code = ''en'', name = ''English''\<rparr>, \<lparr>code = ''fr'', name = ''French''\<rparr>]
   \<and> targetLanguages LANGUAGES_sample DETECT_LANGUAGE_CODE = LANGUAGES_sample
   \<and> DETECT_LANGUAGE_CODE \<notin> set (map code (targetLanguages LANGUAGES_sample ''it''))"
proof -
  have h1: "distinct (map code LANGUAGES_sample)"
    by code_simp
  have h2: "DETECT_LANGUAGE_CODE \<notin> set (map code LANGUAGES_sample)"
    by code_simp
  have f1: "find (\<lambda>lang. code lang = ''it'') LANGUAGES_sample = Some \<lparr>code = ''it'', name = ''Italian''\<rparr>"
    by code_simp
  have f2: "find (\<lambda>lang. code lang = DETECT_LANGUAGE_CODE) LANGUAGES_sample = None"
    by code_simp
  have r: "remove1 \<lparr>code = ''it'', name = ''Italian''\<rparr> LANGUAGES_sample
      = [\<lparr>code = ''en'', name = ''English''\<rparr>, \<lparr>code = ''fr'', name = ''French''\<rparr>]"
    by code_simp
  note t1 = targetLanguages_catalog_minus_source [OF h1 h2, of "''it''"]
  note t2 = targetLanguages_catalog_minus_source [OF h1 h2, of DETECT_LANGUAGE_CODE]
  from t1 f1 r have e1: "targetLanguages LANGUAGES_sample ''it''
       = [\<lparr>code = ''en'', name = ''English''\<rparr>, \<lparr>code = ''fr'', name = ''French''\<rparr>]"
    by simp
  from t2 f2 have e2: "targetLanguages LANGUAGES_sample DETECT_LANGUAGE_CODE = LANGUAGES_sample"
    by simp
  from t1 have e3: "DETECT_LANGUAGE_CODE \<notin> set (map code (targetLanguages LANGUAGES_sample ''it''))"
    by blast
  from h1 h2 e1 e2 e3 show ?thesis by blast
qed

subsection \<open>handleSwapLanguages\<close>

text \<open>
  C10. When the mode is not Normal or the source is \<open>auto\<close>, \<open>handleSwapLanguages\<close>
  returns the state as it was, every field included, and the event changes nothing.
\<close>

theorem swap_guard_noop:
  assumes "mode s \<noteq> NORMAL \<or> sourceLang s = DETECT_LANGUAGE_CODE"
  shows "handleSwapLanguages s = s \<and> step LANGUAGES s SwapLanguages = s"
  using assms by (auto simp add: handleSwapLanguages_def step_def render_effects_same)

theorem swap_guard_noop_witness:
  "sourceLang initial = DETECT_LANGUAGE_CODE
   \<and> handleSwapLanguages initial = initial
   \<and> step LANGUAGES_sample initial SwapLanguages = initial
   \<and> mode (session_sample\<lparr>mode := AAC\<rparr>) \<noteq> NORMAL
   \<and> handleSwapLanguages (session_sample\<lparr>mode := AAC\<rparr>) = session_sample\<lparr>mode := AAC\<rparr>
   \<and> step LANGUAGES_sample (session_sample\<lparr>mode := AAC\<rparr>) SwapLanguages
        = session_sample\<lparr>mode := AAC\<rparr>"
proof -
  have h1: "sourceLang initial = DETECT_LANGUAGE_CODE"
    by (simp add: initial_def)
  have h2: "mode (session_sample\<lparr>mode := AAC\<rparr>) \<noteq> NORMAL"
    by simp
  from h1 have d1: "mode initial \<noteq> NORMAL \<or> sourceLang initial = DETECT_LANGUAGE_CODE"
    by simp
  from h2 have d2: "mode (session_sample\<lparr>mode := AAC\<rparr>) \<noteq> NORMAL
      \<or> sourceLang (session_sample\<lparr>mode := AAC\<rparr>) = DETECT_LANGUAGE_CODE"
    by simp
  show ?thesis
    using h1 h2 swap_guard_noop [OF d1, of LANGUAGES_sample]
      swap_guard_noop [OF d2, of LANGUAGES_sample]
    by blast
qed

subsection \<open>The effects and the invariants\<close>

lemma effect_reset_blank: "blank_means_auto (effect_reset s)"
  by (simp add: blank_means_auto_def effect_reset_def)

lemma effect_detect_fields:
  "inputText (effect_detect s) = inputText s"
  "sourceLang (effect_detect s) = sourceLang s"
  "targetLang (effect_detect s) = targetLang s"
  "mode (effect_detect s) = mode s"
  "error (effect_detect s) = error s"
  "detections (effect_detect s) = detections s"
  by (simp_all add: effect_detect_def)

lemma effect_reset_fields:
  "inputText (effect_reset s) = inputText s"
  "targetLang (effect_reset s) = targetLang s"
  "mode (effect_reset s) = mode s"
  "error (effect_reset s) = error s"
  "detections (effect_reset s) = detections s"
  "debounceTimeout (effect_reset s) = debounceTimeout s"
  by (simp_all add: effect_reset_def)

lemma commit_fields:
  "inputText (commit prev s) = inputText s"
  "targetLang (commit prev s) = targetLang s"
  "mode (commit prev s) = mode s"
  "error (commit prev s) = error s"
  "detections (commit prev s) = detections s"
  by (simp_all add: commit_def Let_def effect_detect_fields effect_reset_fields)

lemma render_effects_fields:
  "inputText (render_effects prev s) = inputText s"
  "targetLang (render_effects prev s) = targetLang s"
  "mode (render_effects prev s) = mode s"
  "error (render_effects prev s) = error s"
  "detections (render_effects prev s) = detections s"
  by (simp_all add: render_effects_def Let_def commit_fields)

lemma commit_blank_of_prev:
  "blank_means_auto prev \<Longrightarrow> blank_means_auto (commit prev s)"
  by (auto simp add: commit_def Let_def blank_means_auto_def effect_reset_def effect_detect_fields)

lemma commit_blank_of_cur:
  "blank_means_auto s \<Longrightarrow> blank_means_auto (commit prev s)"
  by (auto simp add: commit_def Let_def blank_means_auto_def effect_reset_def effect_detect_fields)

lemma step_blank: "blank_means_auto s \<Longrightarrow> blank_means_auto (step LANGUAGES s e)"
  by (simp add: step_def render_effects_def Let_def commit_blank_of_prev commit_blank_of_cur)

lemma newTarget_in_catalog:
  "newTarget LANGUAGES d = Some l \<Longrightarrow> l \<in> set LANGUAGES"
  by (auto simp add: newTarget_def find_Some_iff split: option.splits)

lemma catalog_code_concrete:
  assumes "c \<notin> set (map code LANGUAGES)" and "l \<in> set LANGUAGES"
  shows "code l \<noteq> c"
proof
  assume "code l = c"
  with assms(2) have "c \<in> code ` set LANGUAGES" by blast
  with assms(1) show False by simp
qed

lemma targetLanguages_codes:
  "c \<in> set (map code (targetLanguages LANGUAGES sl)) \<Longrightarrow> c \<in> set (map code LANGUAGES)"
  by (auto simp add: targetLanguages_def)

lemma update_target:
  assumes "DETECT_LANGUAGE_CODE \<notin> set (map code LANGUAGES)"
    and "target_concrete s" and "enabled LANGUAGES s e"
  shows "target_concrete (update LANGUAGES s e)"
proof (cases e)
  case (SetTargetLang c)
  with assms(3) have "c \<in> set (map code LANGUAGES)"
    using targetLanguages_codes [of c LANGUAGES "sourceLang s"] by simp
  with assms(1) have "c \<noteq> DETECT_LANGUAGE_CODE" by blast
  with SetTargetLang show ?thesis
    by (simp add: target_concrete_def)
next
  case (DetectionSettled k response)
  have "\<And>d l. newTarget LANGUAGES d = Some l \<Longrightarrow> code l \<noteq> DETECT_LANGUAGE_CODE"
    using catalog_code_concrete [OF assms(1)] newTarget_in_catalog by blast
  with assms(2) DetectionSettled show ?thesis
    by (auto simp add: target_concrete_def detection_settle_def Let_def
        split: sum.splits option.splits)
next
  case SwapLanguages
  with assms show ?thesis
    by (simp add: target_concrete_def handleSwapLanguages_def)
qed (use assms in \<open>auto simp add: target_concrete_def handleGenerate_enter_def
      handleGenerate_settle_def split: sum.splits option.splits\<close>)

lemma step_target:
  assumes "DETECT_LANGUAGE_CODE \<notin> set (map code LANGUAGES)"
    and "target_concrete s" and "enabled LANGUAGES s e"
  shows "target_concrete (step LANGUAGES s e)"
  using update_target [OF assms]
  by (simp add: step_def target_concrete_def render_effects_fields)

lemma effect_detect_captured: "captured_auto s \<Longrightarrow> captured_auto (effect_detect s)"
  by (auto simp add: captured_auto_def effect_detect_def)

lemma effect_reset_captured: "captured_auto s \<Longrightarrow> captured_auto (effect_reset s)"
  by (simp add: captured_auto_def effect_reset_fields)

lemma commit_captured: "captured_auto s \<Longrightarrow> captured_auto (commit prev s)"
  by (simp add: commit_def Let_def effect_detect_captured effect_reset_captured)

lemma update_captured:
  assumes "captured_auto s"
  shows "captured_auto (update LANGUAGES s e)"
proof (cases e)
  case (DetectionSettled k response)
  have "set (take k (detections s) @ drop (Suc k) (detections s)) \<subseteq> set (detections s)"
    using set_take_subset [of k "detections s"] set_drop_subset [of "Suc k" "detections s"]
    by auto
  with assms DetectionSettled show ?thesis
    by (auto simp add: captured_auto_def detection_settle_def Let_def
        split: sum.splits option.splits)
next
  case TimerFired
  with assms show ?thesis
    by (auto simp add: captured_auto_def split: option.splits)
qed (use assms in \<open>auto simp add: captured_auto_def handleGenerate_enter_def
      handleGenerate_settle_def handleSwapLanguages_def split: sum.splits option.splits\<close>)

lemma step_captured: "captured_auto s \<Longrightarrow> captured_auto (step LANGUAGES s e)"
  by (simp add: step_def render_effects_def Let_def commit_captured update_captured)

lemma run_blank:
  "blank_means_auto s \<Longrightarrow> run LANGUAGES s es = Some s' \<Longrightarrow> blank_means_auto s'"
proof (induction es arbitrary: s)
  case Nil
  then show ?case by simp
next
  case (Cons e es)
  from Cons.prems(2) have "run LANGUAGES (step LANGUAGES s e) es = Some s'"
    by (simp split: if_splits)
  with Cons.IH [of "step LANGUAGES s e"] step_blank [OF Cons.prems(1)] show ?case
    by blast
qed

lemma run_captured:
  "captured_auto s \<Longrightarrow> run LANGUAGES s es = Some s' \<Longrightarrow> captured_auto s'"
proof (induction es arbitrary: s)
  case Nil
  then show ?case by simp
next
  case (Cons e es)
  from Cons.prems(2) have "run LANGUAGES (step LANGUAGES s e) es = Some s'"
    by (simp split: if_splits)
  with Cons.IH [of "step LANGUAGES s e"] step_captured [OF Cons.prems(1)] show ?case
    by blast
qed

lemma run_target:
  "DETECT_LANGUAGE_CODE \<notin> set (map code LANGUAGES) \<Longrightarrow> target_concrete s \<Longrightarrow>
   run LANGUAGES s es = Some s' \<Longrightarrow> target_concrete s'"
proof (induction es arbitrary: s)
  case Nil
  then show ?case by simp
next
  case (Cons e es)
  from Cons.prems(3) have en: "enabled LANGUAGES s e"
    and r: "run LANGUAGES (step LANGUAGES s e) es = Some s'"
    by (simp_all split: if_splits)
  from step_target [OF Cons.prems(1) Cons.prems(2) en] Cons.IH [OF Cons.prems(1) _ r]
  show ?case by blast
qed

lemma initial_invariants:
  "blank_means_auto initial" "captured_auto initial" "target_concrete initial"
  by (simp_all add: blank_means_auto_def captured_auto_def target_concrete_def initial_def
      DETECT_LANGUAGE_CODE_def)

lemma commit_sourceLang:
  "sourceLang (commit prev s) =
     (if (inputText prev, sourceLang prev) \<noteq> (inputText s, sourceLang s)
         \<and> trim (inputText s) = [] \<and> sourceLang s \<noteq> DETECT_LANGUAGE_CODE
      then DETECT_LANGUAGE_CODE else sourceLang s)"
  by (auto simp add: commit_def Let_def effect_reset_def effect_detect_fields)

lemma render_effects_sourceLang:
  "sourceLang (render_effects prev s) =
     (if (inputText prev, sourceLang prev) \<noteq> (inputText s, sourceLang s)
         \<and> trim (inputText s) = [] \<and> sourceLang s \<noteq> DETECT_LANGUAGE_CODE
      then DETECT_LANGUAGE_CODE else sourceLang s)"
  by (auto simp add: render_effects_def Let_def commit_sourceLang commit_fields)

lemma swap_step:
  assumes "blank_means_auto s" and "mode s = NORMAL" and "sourceLang s \<noteq> DETECT_LANGUAGE_CODE"
  shows "sourceLang (step LANGUAGES s SwapLanguages) = targetLang s"
    and "targetLang (step LANGUAGES s SwapLanguages) = sourceLang s"
    and "mode (step LANGUAGES s SwapLanguages) = NORMAL"
    and "inputText (step LANGUAGES s SwapLanguages) = inputText s"
  using assms
  by (simp_all add: step_def render_effects_sourceLang render_effects_fields
      handleSwapLanguages_def blank_means_auto_def)

subsection \<open>Swapping in Normal mode\<close>

text \<open>
  C7. In every state that a run from the initial state reaches (for a catalog that does
  not list \<open>auto\<close>), with mode Normal and a source other than \<open>auto\<close>: one
  \<open>handleSwapLanguages\<close> exchanges \<open>sourceLang\<close> and \<open>targetLang\<close> exactly, and two
  restore both; the same holds of the swap event with the effects of its render.
\<close>

theorem swap_involution:
  assumes "DETECT_LANGUAGE_CODE \<notin> set (map code LANGUAGES)"
    and "run LANGUAGES initial es = Some s"
    and "mode s = NORMAL" and "sourceLang s \<noteq> DETECT_LANGUAGE_CODE"
  shows "sourceLang (handleSwapLanguages s) = targetLang s
       \<and> targetLang (handleSwapLanguages s) = sourceLang s
       \<and> sourceLang (handleSwapLanguages (handleSwapLanguages s)) = sourceLang s
       \<and> targetLang (handleSwapLanguages (handleSwapLanguages s)) = targetLang s
       \<and> sourceLang (step LANGUAGES s SwapLanguages) = targetLang s
       \<and> targetLang (step LANGUAGES s SwapLanguages) = sourceLang s
       \<and> sourceLang (step LANGUAGES (step LANGUAGES s SwapLanguages) SwapLanguages) = sourceLang s
       \<and> targetLang (step LANGUAGES (step LANGUAGES s SwapLanguages) SwapLanguages) = targetLang s"
proof -
  from assms(2) have b: "blank_means_auto s"
    using run_blank initial_invariants(1) by blast
  from assms(1,2) have "target_concrete s"
    using run_target initial_invariants(3) by blast
  then have t: "targetLang s \<noteq> DETECT_LANGUAGE_CODE"
    by (simp add: target_concrete_def)
  let ?s1 = "step LANGUAGES s SwapLanguages"
  note one = swap_step [OF b assms(3) assms(4), of LANGUAGES]
  from b assms(4) one have b1: "blank_means_auto ?s1"
    by (simp add: blank_means_auto_def)
  from one t have a1: "sourceLang ?s1 \<noteq> DETECT_LANGUAGE_CODE"
    by simp
  note two = swap_step [OF b1 one(3) a1, of LANGUAGES]
  have h: "sourceLang (handleSwapLanguages s) = targetLang s
       \<and> targetLang (handleSwapLanguages s) = sourceLang s
       \<and> sourceLang (handleSwapLanguages (handleSwapLanguages s)) = sourceLang s
       \<and> targetLang (handleSwapLanguages (handleSwapLanguages s)) = targetLang s"
    using assms(3,4) t by (simp add: handleSwapLanguages_def)
  from h one two show ?thesis by simp
qed

theorem swap_involution_witness:
  "DETECT_LANGUAGE_CODE \<notin> set (map code LANGUAGES_sample)
   \<and> run LANGUAGES_sample initial [SetInputText ''Ciao'', SetSourceLang ''en'']
       = Some (initial\<lparr>inputText := ''Ciao'', sourceLang := ''en''\<rparr>)
   \<and> mode (initial\<lparr>inputText := ''Ciao'', sourceLang := ''en''\<rparr>) = NORMAL
   \<and> sourceLang (initial\<lparr>inputText := ''Ciao'', sourceLang := ''en''\<rparr>) \<noteq> DETECT_LANGUAGE_CODE
   \<and> sourceLang (step LANGUAGES_sample (initial\<lparr>inputText := ''Ciao'', sourceLang := ''en''\<rparr>)
        SwapLanguages) = ''it''
   \<and> targetLang (step LANGUAGES_sample (initial\<lparr>inputText := ''Ciao'', sourceLang := ''en''\<rparr>)
        SwapLanguages) = ''en''
   \<and> sourceLang (step LANGUAGES_sample
        (step LANGUAGES_sample (initial\<lparr>inputText := ''Ciao'', sourceLang := ''en''\<rparr>)
           SwapLanguages) SwapLanguages) = ''en''
   \<and> targetLang (step LANGUAGES_sample
        (step LANGUAGES_sample (initial\<lparr>inputText := ''Ciao'', sourceLang := ''en''\<rparr>)
           SwapLanguages) SwapLanguages) = ''it''"
proof -
  let ?s = "initial\<lparr>inputText := ''Ciao'', sourceLang := ''en''\<rparr>"
  have h1: "DETECT_LANGUAGE_CODE \<notin> set (map code LANGUAGES_sample)"
    by code_simp
  have h2: "run LANGUAGES_sample initial [SetInputText ''Ciao'', SetSourceLang ''en''] = Some ?s"
    by code_simp
  have h3: "mode ?s = NORMAL"
    by (simp add: initial_def)
  have h4: "sourceLang ?s \<noteq> DETECT_LANGUAGE_CODE"
    by (simp add: DETECT_LANGUAGE_CODE_def)
  have v: "sourceLang ?s = ''en''" "targetLang ?s = ''it''"
    by (simp_all add: initial_def)
  from swap_involution [OF h1 h2 h3 h4] v h1 h2 h3 h4 show ?thesis
    by simp
qed

subsection \<open>Completion of a detection\<close>

text \<open>
  C9. In every state that a run from the initial state reaches, when a pending detection
  fails (the endpoint failed, or it named a language the catalog does not list) and
  \<open>sourceLang\<close> is still \<open>auto\<close>, the callback sets \<open>sourceLang\<close> to \<open>en\<close>, and \<open>error\<close>
  is left as it was. After the effects of that render \<open>sourceLang\<close> is \<open>en\<close>, unless the
  input is blank by then, where the reset effect puts \<open>auto\<close> back.
\<close>

theorem detection_failure_defaults_to_en:
  assumes "run LANGUAGES initial es = Some s"
    and "k < length (detections s)"
    and "detectLanguage_settle LANGUAGES response = Inl e"
    and "sourceLang s = DETECT_LANGUAGE_CODE"
  shows "sourceLang (update LANGUAGES s (DetectionSettled k response)) = ''en''
       \<and> sourceLang (step LANGUAGES s (DetectionSettled k response))
           = (if trim (inputText s) = [] then DETECT_LANGUAGE_CODE else ''en'')
       \<and> error (step LANGUAGES s (DetectionSettled k response)) = error s"
proof -
  from assms(1) have "captured_auto s"
    using run_captured initial_invariants(2) by blast
  with assms(2) have c: "cap_sourceLang (detections s ! k) = DETECT_LANGUAGE_CODE"
    by (simp add: captured_auto_def)
  from c assms(3) have u: "sourceLang (update LANGUAGES s (DetectionSettled k response)) = ''en''"
    by (simp add: detection_settle_def)
  have i: "inputText (update LANGUAGES s (DetectionSettled k response)) = inputText s"
    by (simp add: detection_settle_def Let_def split: sum.splits option.splits)
  have e: "error (update LANGUAGES s (DetectionSettled k response)) = error s"
    by (simp add: detection_settle_def Let_def split: sum.splits option.splits)
  from u i assms(4) have "sourceLang (step LANGUAGES s (DetectionSettled k response))
           = (if trim (inputText s) = [] then DETECT_LANGUAGE_CODE else ''en'')"
    unfolding step_def render_effects_sourceLang
    by (simp add: DETECT_LANGUAGE_CODE_def)
  with u e show ?thesis
    by (simp add: step_def render_effects_fields)
qed

theorem detection_failure_defaults_to_en_witness:
  "run LANGUAGES_sample initial [SetInputText ''Bonjour, comment allez-vous?'', TimerFired]
     = Some detecting_sample
   \<and> 0 < length (detections detecting_sample)
   \<and> detectLanguage_settle LANGUAGES_sample (Inr ''Klingon'')
       = Inl (Error ''Failed to detect language.'')
   \<and> sourceLang detecting_sample = DETECT_LANGUAGE_CODE
   \<and> sourceLang (update LANGUAGES_sample detecting_sample (DetectionSettled 0 (Inr ''Klingon''))) = ''en''
   \<and> sourceLang (step LANGUAGES_sample detecting_sample (DetectionSettled 0 (Inr ''Klingon''))) = ''en''
   \<and> error (step LANGUAGES_sample detecting_sample (DetectionSettled 0 (Inr ''Klingon''))) = None"
proof -
  have h1: "run LANGUAGES_sample initial [SetInputText ''Bonjour, comment allez-vous?'', TimerFired]
     = Some detecting_sample"
    by code_simp
  have h2: "0 < length (detections detecting_sample)"
    by (simp add: detecting_sample_def)
  have h3: "detectLanguage_settle LANGUAGES_sample (Inr ''Klingon'')
       = Inl (Error ''Failed to detect language.'')"
    by code_simp
  have h4: "sourceLang detecting_sample = DETECT_LANGUAGE_CODE"
    by (simp add: detecting_sample_def initial_def)
  have v: "trim (inputText detecting_sample) \<noteq> []" "error detecting_sample = None"
    by code_simp+
  from detection_failure_defaults_to_en [OF h1 h2 h3 h4] v h1 h2 h3 h4 show ?thesis
    by simp
qed

text \<open>
  C1, on the code. A detection is requested for a long input; the user shortens the
  input, which enables the source selector again, and chooses English; the answer
  "French" then arrives. The callback tests the \<open>sourceLang\<close> of the render that started
  the timer, which is \<open>auto\<close>, and overwrites the user's choice with \<open>fr\<close>.
\<close>

theorem late_detection_overwrites_choice:
  "run LANGUAGES_sample initial
     [SetInputText ''Bonjour, comment allez-vous?'', TimerFired, SetInputText ''Bonjour'',
      SetSourceLang ''en'']
     = Some (initial\<lparr>inputText := ''Bonjour'', sourceLang := ''en'',
               detections := [\<lparr>cap_inputText = ''Bonjour, comment allez-vous?'',
                 cap_sourceLang = DETECT_LANGUAGE_CODE, cap_targetLang = ''it''\<rparr>]\<rparr>)
   \<and> run LANGUAGES_sample initial
     [SetInputText ''Bonjour, comment allez-vous?'', TimerFired, SetInputText ''Bonjour'',
      SetSourceLang ''en'', DetectionSettled 0 (Inr ''French'')]
     = Some (initial\<lparr>inputText := ''Bonjour'', sourceLang := ''fr''\<rparr>)"
  by code_simp

subsection \<open>Source and target in Normal mode\<close>

text \<open>
  C2, on the code. With a short input, choosing as source the language that is the
  current target leaves a Normal-mode state whose source and target are both \<open>it\<close>:
  the target list is filtered, the \<open>targetLang\<close> cell is not touched. The fallback of a
  failed detection does the same when the target is \<open>en\<close>.
\<close>

theorem source_choice_equals_target:
  "run LANGUAGES_sample initial [SetInputText ''Ciao'', SetSourceLang ''it'']
     = Some (initial\<lparr>inputText := ''Ciao'', sourceLang := ''it''\<rparr>)
   \<and> mode (initial\<lparr>inputText := ''Ciao'', sourceLang := ''it''\<rparr>) = NORMAL
   \<and> sourceLang (initial\<lparr>inputText := ''Ciao'', sourceLang := ''it''\<rparr>) = ''it''
   \<and> targetLang (initial\<lparr>inputText := ''Ciao'', sourceLang := ''it''\<rparr>) = ''it''
   \<and> run LANGUAGES_sample initial
       [SetInputText ''Bonjour, comment allez-vous?'', SetTargetLang ''en'', TimerFired,
        DetectionSettled 0 (Inl Thrown)]
     = Some (initial\<lparr>inputText := ''Bonjour, comment allez-vous?'', sourceLang := ''en'',
               targetLang := ''en''\<rparr>)"
  by code_simp

subsection \<open>handleGenerate among the other events\<close>









end
